theory Spec2Isabelle
  imports Main
begin

section \<open>The account backend of NeoroSense: data model\<close>

text \<open>
  The server (the Express application with the five \<open>/api\<close> routes) keeps one Mongoose
  collection of users and answers with JSON. The model follows that file: a user document
  is a record, the collection is the list of its documents in natural order, a handler is
  a function from the request and the collection to the response and the new collection.

  Instants are milliseconds since the epoch, as \<open>Date.now()\<close> gives them. Object ids are
  opaque, so they are natural numbers here.
\<close>

type_synonym oid = nat

record user =
  user_id :: oid
  name :: string
  email :: string
  password :: string
  phone :: string
  birthdate :: "int option"
  createdAt :: int

type_synonym store = "user list"

text \<open>
  What \<open>res.json\<close> sends. \<open>JIso t\<close> is the ISO-8601 string of the instant \<open>t\<close>, which is
  what both \<open>new Date().toISOString()\<close> and a \<open>Date\<close> field serialised by \<open>res.json\<close>
  produce; \<open>JOid\<close> is an object id serialised as its hexadecimal string.
\<close>

datatype json =
    JString string
  | JNumber int
  | JIso int
  | JOid oid
  | JArray "json list"
  | JObject "(string \<times> json) list"

record response =
  status :: nat
  body :: json

text \<open>
  The functions of the packages the server calls, and the process environment. They are
  parameters of the model: \<open>bcrypt_hash p\<close> is \<open>bcrypt.hash(p, 10)\<close> at the call in
  question (the salt chosen there included), \<open>bcrypt_compare p d\<close> is
  \<open>bcrypt.compare(p, d)\<close>, \<open>castDate\<close> is the cast Mongoose applies to a value assigned
  to a \<open>Date\<close> path (\<open>None\<close> when the cast fails), \<open>hmac\<close> signs a token's payload under
  a key, and \<open>jwt_render\<close>, \<open>jwt_parse\<close> are the compact serialisation of a token
  and its inverse.
\<close>

record jwt =
  jwt_userId :: oid
  jwt_email :: string
  jwt_iat :: int
  jwt_exp :: int
  jwt_sig :: string

record env =
  JWT_SECRET :: "string option"
  bcrypt_hash :: "string \<Rightarrow> string"
  bcrypt_compare :: "string \<Rightarrow> string \<Rightarrow> bool"
  castDate :: "string \<Rightarrow> int option"
  encodeURIComponent :: "string \<Rightarrow> string"
  hmac :: "string \<Rightarrow> oid \<times> string \<times> int \<times> int \<Rightarrow> string"
  jwt_render :: "jwt \<Rightarrow> string"
  jwt_parse :: "string \<Rightarrow> jwt option"

text \<open>The request bodies. Register and login take their fields as strings; every field
  of an update may be absent (\<open>None\<close> is JavaScript's \<open>undefined\<close>).\<close>

record register_body =
  reg_name :: string
  reg_email :: string
  reg_password :: string

record login_body =
  login_email :: string
  login_password :: string

record update_body =
  body_name :: "string option"
  body_email :: "string option"
  body_phone :: "string option"
  body_birthdate :: "string option"
  currentPassword :: "string option"
  newPassword :: "string option"

text \<open>JavaScript truthiness of an optional string: \<open>undefined\<close> and \<open>''\<close> are falsy.\<close>

fun truthy :: "string option \<Rightarrow> bool" where
  "truthy None = False"
| "truthy (Some s) = (s \<noteq> [])"

section \<open>The users collection\<close>

text \<open>
  \<open>User.findOne({ email })\<close> and \<open>User.findById(id)\<close>: the first document that matches.
\<close>

definition findOne_email :: "string \<Rightarrow> store \<Rightarrow> user option" where
  "findOne_email e st = find (\<lambda>u. email u = e) st"

definition findById :: "oid \<Rightarrow> store \<Rightarrow> user option" where
  "findById i st = find (\<lambda>u. user_id u = i) st"

text \<open>\<open>.select('-password')\<close>: the document is loaded without its password path.\<close>

definition select_minus_password :: "user \<Rightarrow> user" where
  "select_minus_password u = u\<lparr>password := []\<rparr>"

text \<open>
  \<open>UserSchema\<close>: \<open>name\<close>, \<open>email\<close> and \<open>password\<close> are \<open>required\<close> (Mongoose's validator
  for a required string rejects the empty string), and \<open>email\<close> is \<open>unique\<close> (a unique
  index of the collection; the \<open>_id\<close> index is unique as well).

  \<open>save_new\<close> is \<open>user.save()\<close> on a document made by \<open>new User\<close>: validation, then an
  insert that the indexes may reject. \<open>None\<close> is the rejected promise.
\<close>

definition required_ok :: "user \<Rightarrow> bool" where
  "required_ok u \<longleftrightarrow> name u \<noteq> [] \<and> email u \<noteq> [] \<and> password u \<noteq> []"

definition save_new :: "user \<Rightarrow> store \<Rightarrow> store option" where
  "save_new u st =
     (if \<not> required_ok u then None
      else if user_id u \<in> set (map user_id st) \<or> email u \<in> set (map email st) then None
      else Some (st @ [u]))"

text \<open>
  \<open>save_loaded\<close> is \<open>user.save()\<close> on a document loaded by \<open>findById\<close> and then assigned
  to: Mongoose validates the paths that were modified and sends them in one update of the
  document with that \<open>_id\<close>; the unique index rejects the update when the email changes to
  one that a document of the collection already holds. \<open>cast_ok\<close> is false when a value
  assigned to \<open>birthdate\<close> could not be cast to a date, which fails validation.
\<close>

fun replace_doc :: "user \<Rightarrow> store \<Rightarrow> store" where
  "replace_doc u [] = []"
| "replace_doc u (d # ds) =
     (if user_id d = user_id u then u # ds else d # replace_doc u ds)"

definition modified_ok :: "user \<Rightarrow> user \<Rightarrow> bool" where
  "modified_ok old new \<longleftrightarrow>
     (name new \<noteq> name old \<longrightarrow> name new \<noteq> []) \<and>
     (email new \<noteq> email old \<longrightarrow> email new \<noteq> []) \<and>
     (password new \<noteq> password old \<longrightarrow> password new \<noteq> [])"

definition save_loaded :: "bool \<Rightarrow> user \<Rightarrow> user \<Rightarrow> store \<Rightarrow> store option" where
  "save_loaded cast_ok old new st =
     (if \<not> cast_ok \<or> \<not> modified_ok old new then None
      else if email new \<noteq> email old \<and> email new \<in> set (map email st) then None
      else Some (replace_doc new st))"

section \<open>Tokens\<close>

text \<open>\<open>process.env.JWT_SECRET || 'your-secret-key'\<close>\<close>

definition secret :: "env \<Rightarrow> string" where
  "secret env = (if truthy (JWT_SECRET env) then the (JWT_SECRET env) else ''your-secret-key'')"

definition seven_days :: int where
  "seven_days = 7 * 24 * 60 * 60 * 1000"

text \<open>
  Modelled from the spec: \<open>jwt.sign\<close> and \<open>jwt.verify\<close> of the jsonwebtoken package,
  which the server calls and which is not part of its sources. The spec's words:
  issue ``produces a signed token embedding the claims and an absolute expiry (7 days from
  issuance in the source policy)''; verify ``fails if signature invalid, payload
  malformed, or expiry passed''. The claims \<open>{ userId, email }\<close> and the option
  \<open>{ expiresIn: '7d' }\<close> are the ones the handlers pass.
\<close>

definition jwt_issue :: "env \<Rightarrow> oid \<Rightarrow> string \<Rightarrow> string \<Rightarrow> int \<Rightarrow> jwt" where
  "jwt_issue env uid em key now =
     \<lparr>jwt_userId = uid, jwt_email = em, jwt_iat = now, jwt_exp = now + seven_days,
      jwt_sig = hmac env key (uid, em, now, now + seven_days)\<rparr>"

definition jwt_sign :: "env \<Rightarrow> oid \<Rightarrow> string \<Rightarrow> string \<Rightarrow> int \<Rightarrow> string" where
  "jwt_sign env uid em key now = jwt_render env (jwt_issue env uid em key now)"

definition jwt_verify :: "env \<Rightarrow> string \<Rightarrow> string \<Rightarrow> int \<Rightarrow> jwt option" where
  "jwt_verify env token key now =
     (case jwt_parse env token of
        None \<Rightarrow> None
      | Some j \<Rightarrow>
          if jwt_sig j \<noteq> hmac env key (jwt_userId j, jwt_email j, jwt_iat j, jwt_exp j) then None
          else if jwt_exp j \<le> now then None
          else Some j)"

section \<open>The authentication middleware\<close>

text \<open>\<open>s.split(' ')\<close>: the pieces between single spaces, empty pieces included.\<close>

fun split_space :: "string \<Rightarrow> string list" where
  "split_space [] = [[]]"
| "split_space (c # cs) =
     (if c = CHR '' '' then [] # split_space cs
      else (case split_space cs of
              [] \<Rightarrow> [[c]]
            | w # ws \<Rightarrow> (c # w) # ws))"

text \<open>\<open>req.headers.authorization?.split(' ')[1]\<close>; \<open>None\<close> is \<open>undefined\<close>.\<close>

definition extract_token :: "string option \<Rightarrow> string option" where
  "extract_token authorization =
     (case authorization of
        None \<Rightarrow> None
      | Some h \<Rightarrow> (case split_space h of
                     _ # t # _ \<Rightarrow> Some t
                   | _ \<Rightarrow> None))"

definition message :: "nat \<Rightarrow> string \<Rightarrow> response" where
  "message code m = \<lparr>status = code, body = JObject [(''message'', JString m)]\<rparr>"

text \<open>The middleware either answers itself or calls \<open>next()\<close> with \<open>req.userId\<close> set.\<close>

datatype auth = Rejected response | Next oid

definition authMiddleware :: "env \<Rightarrow> int \<Rightarrow> string option \<Rightarrow> auth" where
  "authMiddleware env now authorization =
     (let token = extract_token authorization in
      if \<not> truthy token then Rejected (message 401 ''No token provided'')
      else (case jwt_verify env (the token) (secret env) now of
              None \<Rightarrow> Rejected (message 401 ''Invalid token'')
            | Some decoded \<Rightarrow> Next (jwt_userId decoded)))"

text \<open>A route registered as \<open>app.get(path, authMiddleware, handler)\<close>.\<close>

definition protected :: "env \<Rightarrow> int \<Rightarrow> string option \<Rightarrow>
    (oid \<Rightarrow> store \<Rightarrow> response \<times> store) \<Rightarrow> store \<Rightarrow> response \<times> store" where
  "protected env now authorization handler st =
     (case authMiddleware env now authorization of
        Rejected r \<Rightarrow> (r, st)
      | Next uid \<Rightarrow> handler uid st)"

section \<open>The route handlers\<close>

text \<open>The \<open>user\<close> object of the login, me and update responses.\<close>

definition profile_json :: "env \<Rightarrow> user \<Rightarrow> json" where
  "profile_json env u =
     JObject [
       (''id'', JOid (user_id u)),
       (''name'', JString (name u)),
       (''email'', JString (email u)),
       (''phone'', JString (if phone u \<noteq> [] then phone u else [])),
       (''birthdate'', (case birthdate u of Some d \<Rightarrow> JIso d | None \<Rightarrow> JString [])),
       (''profileImage'', JString (''https://ui-avatars.com/api/?name=''
           @ encodeURIComponent env (name u) @ ''&background=random''))]"

text \<open>\<open>POST /api/auth/register\<close>. \<open>new_id\<close> is the \<open>_id\<close> that \<open>new User\<close> generates.\<close>

definition register :: "env \<Rightarrow> int \<Rightarrow> oid \<Rightarrow> register_body \<Rightarrow> store \<Rightarrow> response \<times> store" where
  "register env now new_id req st =
     (case findOne_email (reg_email req) st of
        Some existingUser \<Rightarrow> (message 400 ''User already exists'', st)
      | None \<Rightarrow>
          let hashedPassword = bcrypt_hash env (reg_password req);
              u = \<lparr>user_id = new_id, name = reg_name req, email = reg_email req,
                   password = hashedPassword, phone = [], birthdate = None,
                   createdAt = now\<rparr>
          in (case save_new u st of
                None \<Rightarrow> (message 500 ''Server error'', st)
              | Some st' \<Rightarrow>
                  let token = jwt_sign env (user_id u) (email u) (secret env) now
                  in (\<lparr>status = 201,
                       body = JObject [
                         (''message'', JString ''User created successfully''),
                         (''token'', JString token),
                         (''user'', JObject [
                            (''id'', JOid (user_id u)),
                            (''name'', JString (name u)),
                            (''email'', JString (email u))])]\<rparr>, st')))"

text \<open>\<open>POST /api/auth/login\<close>\<close>

definition login :: "env \<Rightarrow> int \<Rightarrow> login_body \<Rightarrow> store \<Rightarrow> response \<times> store" where
  "login env now req st =
     (case findOne_email (login_email req) st of
        None \<Rightarrow> (message 400 ''Invalid credentials'', st)
      | Some u \<Rightarrow>
          if \<not> bcrypt_compare env (login_password req) (password u)
          then (message 400 ''Invalid credentials'', st)
          else
            let token = jwt_sign env (user_id u) (email u) (secret env) now
            in (\<lparr>status = 200,
                 body = JObject [
                   (''message'', JString ''Login successful''),
                   (''token'', JString token),
                   (''user'', profile_json env u)]\<rparr>, st))"

text \<open>\<open>GET /api/auth/me\<close>, behind the middleware.\<close>

definition me_handler :: "env \<Rightarrow> oid \<Rightarrow> store \<Rightarrow> response \<times> store" where
  "me_handler env userId st =
     (case map_option select_minus_password (findById userId st) of
        None \<Rightarrow> (message 404 ''User not found'', st)
      | Some u \<Rightarrow> (\<lparr>status = 200, body = JObject [(''user'', profile_json env u)]\<rparr>, st))"

text \<open>
  \<open>PUT /api/users/update\<close>, behind the middleware. The assignments are made on the loaded
  document, in the order of the source; nothing reaches the collection before
  \<open>user.save()\<close>. \<open>assign_basic\<close> is the block ``update basic info'',
  \<open>assign_password\<close> the assignment at the end of the block ``update password if
  provided'', whose test and early return are in the handler.
\<close>

definition assign_basic :: "env \<Rightarrow> update_body \<Rightarrow> user \<Rightarrow> user" where
  "assign_basic env req u =
     (let u1 = (if truthy (body_name req) then u\<lparr>name := the (body_name req)\<rparr> else u);
          u2 = (if truthy (body_email req) then u1\<lparr>email := the (body_email req)\<rparr> else u1);
          u3 = (if body_phone req \<noteq> None then u2\<lparr>phone := the (body_phone req)\<rparr> else u2);
          u4 = (if truthy (body_birthdate req)
                then (case castDate env (the (body_birthdate req)) of
                        Some d \<Rightarrow> u3\<lparr>birthdate := Some d\<rparr>
                      | None \<Rightarrow> u3)
                else u3)
      in u4)"

definition birthdate_cast_ok :: "env \<Rightarrow> update_body \<Rightarrow> bool" where
  "birthdate_cast_ok env req \<longleftrightarrow>
     (truthy (body_birthdate req) \<longrightarrow> castDate env (the (body_birthdate req)) \<noteq> None)"

definition assign_password :: "env \<Rightarrow> update_body \<Rightarrow> user \<Rightarrow> user" where
  "assign_password env req u =
     (if truthy (currentPassword req) \<and> truthy (newPassword req)
      then u\<lparr>password := bcrypt_hash env (the (newPassword req))\<rparr>
      else u)"

definition update_handler :: "env \<Rightarrow> update_body \<Rightarrow> oid \<Rightarrow> store \<Rightarrow> response \<times> store" where
  "update_handler env req userId st =
     (case findById userId st of
        None \<Rightarrow> (message 404 ''User not found'', st)
      | Some loaded \<Rightarrow>
          let u = assign_basic env req loaded in
          if truthy (currentPassword req) \<and> truthy (newPassword req)
             \<and> \<not> bcrypt_compare env (the (currentPassword req)) (password u)
          then (message 400 ''Current password is incorrect'', st)
          else
            let u' = assign_password env req u
            in (case save_loaded (birthdate_cast_ok env req) loaded u' st of
                  None \<Rightarrow> (message 500 ''Server error'', st)
                | Some st' \<Rightarrow>
                    (\<lparr>status = 200,
                      body = JObject [
                        (''message'', JString ''User updated successfully''),
                        (''user'', profile_json env u')]\<rparr>, st')))"

text \<open>\<open>GET /api/progress\<close>, behind the middleware.\<close>

definition progress_handler :: "int \<Rightarrow> oid \<Rightarrow> store \<Rightarrow> response \<times> store" where
  "progress_handler now userId st =
     (\<lparr>status = 200,
       body = JObject [
         (''mentalHealthScore'', JNumber 75),
         (''assessmentsCompleted'', JNumber 3),
         (''lastAssessmentDate'', JIso now),
         (''progressHistory'', JArray [
            JObject [(''date'', JString ''2024-01-01''), (''score'', JNumber 65)],
            JObject [(''date'', JString ''2024-01-15''), (''score'', JNumber 70)],
            JObject [(''date'', JString ''2024-02-01''), (''score'', JNumber 75)]])]\<rparr>, st)"

text \<open>The three protected routes as the application registers them.\<close>

definition route_me :: "env \<Rightarrow> int \<Rightarrow> string option \<Rightarrow> store \<Rightarrow> response \<times> store" where
  "route_me env now authorization st = protected env now authorization (me_handler env) st"

definition route_update ::
    "env \<Rightarrow> int \<Rightarrow> string option \<Rightarrow> update_body \<Rightarrow> store \<Rightarrow> response \<times> store" where
  "route_update env now authorization req st =
     protected env now authorization (update_handler env req) st"

definition route_progress :: "env \<Rightarrow> int \<Rightarrow> string option \<Rightarrow> store \<Rightarrow> response \<times> store" where
  "route_progress env now authorization st =
     protected env now authorization (progress_handler now) st"

section \<open>Properties: vocabulary\<close>


text \<open>No two documents of the collection share an email.\<close>

definition emails_unique :: "store \<Rightarrow> bool" where
  "emails_unique st \<longleftrightarrow> distinct (map email st)"

definition count_email :: "string \<Rightarrow> store \<Rightarrow> nat" where
  "count_email e st = length (filter (\<lambda>u. email u = e) st)"

text \<open>
  A concrete environment and collection, on which the theorems below are run. The token
  serialisation is a table of the tokens in circulation; the signature depends on the key
  and on the payload.
\<close>

definition table_render :: "(string \<times> jwt) list \<Rightarrow> jwt \<Rightarrow> string" where
  "table_render tab j =
     (case find (\<lambda>(s, j'). j' = j) tab of Some (s, _) \<Rightarrow> s | None \<Rightarrow> [])"

definition example_env :: "(string \<times> jwt) list \<Rightarrow> env" where
  "example_env tab =
     \<lparr>JWT_SECRET = None,
      bcrypt_hash = (\<lambda>p. ''$2a$10$'' @ p),
      bcrypt_compare = (\<lambda>p d. d = ''$2a$10$'' @ p),
      castDate = (\<lambda>s. if s = ''2000-01-01'' then Some 946684800000 else None),
      encodeURIComponent = (\<lambda>s. s),
      hmac = (\<lambda>k (uid, em, iat, ex). k @ ''/'' @ replicate uid CHR ''i'' @ ''/'' @ em),
      jwt_render = table_render tab,
      jwt_parse = map_of tab\<rparr>"

definition alice :: user where
  "alice = \<lparr>user_id = 1, name = ''Alice'', email = ''a@x.com'',
            password = ''$2a$10$secret1'', phone = [], birthdate = None, createdAt = 0\<rparr>"

definition bob :: user where
  "bob = \<lparr>user_id = 2, name = ''Bob'', email = ''b@x.com'',
          password = ''$2a$10$hunter2'', phone = ''555'', birthdate = Some 946684800000,
          createdAt = 5\<rparr>"

text \<open>
  Tokens in circulation in the examples: \<open>tok1\<close> was issued to Alice at instant 1000 under
  the default key; \<open>tok3\<close> is \<open>tok1\<close> with the email of its payload replaced and the
  signature kept.
\<close>

definition token1 :: jwt where
  "token1 = jwt_issue (example_env []) 1 ''a@x.com'' ''your-secret-key'' 1000"

definition tokens :: "(string \<times> jwt) list" where
  "tokens = [(''tok1'', token1), (''tok3'', token1\<lparr>jwt_email := ''b@x.com''\<rparr>)]"

section \<open>Lemmas about the collection and the handlers\<close>

lemma findOne_email_None: "findOne_email e st = None \<longleftrightarrow> e \<notin> set (map email st)"
  by (auto simp: findOne_email_def find_None_iff)

lemma findById_id: "findById i st = Some u \<Longrightarrow> user_id u = i"
  unfolding findById_def by (induction st) (auto split: if_splits)

lemma findById_mem: "findById i st = Some u \<Longrightarrow> u \<in> set st"
  unfolding findById_def by (induction st) (auto split: if_splits)

lemma assign_basic_id [simp]: "user_id (assign_basic env req u) = user_id u"
  by (simp add: assign_basic_def Let_def split: option.split)

lemma assign_basic_password [simp]: "password (assign_basic env req u) = password u"
  by (simp add: assign_basic_def Let_def split: option.split)

lemma assign_basic_createdAt [simp]: "createdAt (assign_basic env req u) = createdAt u"
  by (simp add: assign_basic_def Let_def split: option.split)

lemma set_replace_doc_emails:
  "set (map email (replace_doc new st)) \<subseteq> insert (email new) (set (map email st))"
  by (induction st) auto

lemma replace_doc_distinct:
  assumes "distinct (map email st)"
    and "findById (user_id new) st = Some old"
    and "email new = email old \<or> email new \<notin> set (map email st)"
  shows "distinct (map email (replace_doc new st))"
  using assms
proof (induction st)
  case Nil
  then show ?case by simp
next
  case (Cons d ds)
  show ?case
  proof (cases "user_id d = user_id new")
    case True
    with Cons.prems have "old = d" by (simp add: findById_def)
    with True Cons.prems show ?thesis by auto
  next
    case False
    with Cons.prems have f: "findById (user_id new) ds = Some old"
      by (simp add: findById_def)
    then have mem: "old \<in> set ds" by (rule findById_mem)
    from Cons.prems have d: "distinct (map email ds)" and nd: "email d \<notin> set (map email ds)"
      by simp_all
    from Cons.prems(3) mem nd have ne: "email new \<noteq> email d"
      by force
    from Cons.prems(3) have "email new = email old \<or> email new \<notin> set (map email ds)"
      by auto
    with Cons.IH d f have "distinct (map email (replace_doc new ds))" by blast
    moreover from nd ne set_replace_doc_emails [of new ds]
    have "email d \<notin> set (map email (replace_doc new ds))" by auto
    ultimately show ?thesis using False by simp
  qed
qed

lemma save_new_unique:
  "emails_unique st \<Longrightarrow> save_new u st = Some st' \<Longrightarrow> emails_unique st'"
  by (auto simp: save_new_def emails_unique_def split: if_splits)

lemma save_loaded_unique:
  "emails_unique st \<Longrightarrow> findById (user_id new) st = Some old \<Longrightarrow>
   save_loaded ok old new st = Some st' \<Longrightarrow> emails_unique st'"
  unfolding emails_unique_def save_loaded_def
  by (auto split: if_splits intro: replace_doc_distinct)

lemma register_unique: "emails_unique st \<Longrightarrow> emails_unique (snd (register env now i req st))"
  by (auto simp: register_def Let_def split: option.split dest: save_new_unique)

lemma login_store: "snd (login env now req st) = st"
  by (simp add: login_def Let_def split: option.split)

lemma me_store: "snd (me_handler env i st) = st"
  by (simp add: me_handler_def split: option.split)

lemma progress_store: "snd (progress_handler now i st) = st"
  by (simp add: progress_handler_def)

lemma assign_password_id [simp]: "user_id (assign_password env req u) = user_id u"
  by (simp add: assign_password_def)

lemma update_handler_cases:
  obtains
    (missing) "findById i st = None"
      "update_handler env req i st = (message 404 ''User not found'', st)"
  | (wrong) loaded where "findById i st = Some loaded"
      "truthy (currentPassword req)" "truthy (newPassword req)"
      "\<not> bcrypt_compare env (the (currentPassword req)) (password loaded)"
      "update_handler env req i st = (message 400 ''Current password is incorrect'', st)"
  | (rejected) loaded where "findById i st = Some loaded"
      "\<not> (truthy (currentPassword req) \<and> truthy (newPassword req)
          \<and> \<not> bcrypt_compare env (the (currentPassword req)) (password loaded))"
      "save_loaded (birthdate_cast_ok env req) loaded
         (assign_password env req (assign_basic env req loaded)) st = None"
      "update_handler env req i st = (message 500 ''Server error'', st)"
  | (saved) loaded st' where "findById i st = Some loaded"
      "\<not> (truthy (currentPassword req) \<and> truthy (newPassword req)
          \<and> \<not> bcrypt_compare env (the (currentPassword req)) (password loaded))"
      "save_loaded (birthdate_cast_ok env req) loaded
         (assign_password env req (assign_basic env req loaded)) st = Some st'"
      "update_handler env req i st =
         (\<lparr>status = 200,
           body = JObject [
             (''message'', JString ''User updated successfully''),
             (''user'', profile_json env
                (assign_password env req (assign_basic env req loaded)))]\<rparr>, st')"
proof (cases "findById i st")
  case None
  then show ?thesis using missing by (simp add: update_handler_def)
next
  case (Some loaded)
  show ?thesis
  proof (cases "truthy (currentPassword req) \<and> truthy (newPassword req)
          \<and> \<not> bcrypt_compare env (the (currentPassword req)) (password loaded)")
    case True
    then show ?thesis using Some wrong [of loaded] by (simp add: update_handler_def)
  next
    case False
    show ?thesis
    proof (cases "save_loaded (birthdate_cast_ok env req) loaded
         (assign_password env req (assign_basic env req loaded)) st")
      case None
      have "update_handler env req i st = (message 500 ''Server error'', st)"
        using Some False None unfolding update_handler_def Let_def by auto
      with Some False None show ?thesis using rejected [of loaded] by blast
    next
      case (Some st')
      have "update_handler env req i st =
         (\<lparr>status = 200,
           body = JObject [
             (''message'', JString ''User updated successfully''),
             (''user'', profile_json env
                (assign_password env req (assign_basic env req loaded)))]\<rparr>, st')"
        using \<open>findById i st = Some loaded\<close> False Some unfolding update_handler_def Let_def by auto
      with \<open>findById i st = Some loaded\<close> False Some show ?thesis using saved [of loaded st'] by blast
    qed
  qed
qed

lemma update_unique:
  assumes "emails_unique st"
  shows "emails_unique (snd (update_handler env req i st))"
proof (cases rule: update_handler_cases [of i st env req])
  case missing
  with assms show ?thesis by simp
next
  case (wrong loaded)
  with assms show ?thesis by simp
next
  case (rejected loaded)
  with assms show ?thesis by simp
next
  case (saved loaded st')
  from saved(1) have "user_id loaded = i" by (rule findById_id)
  then have f: "findById (user_id (assign_password env req (assign_basic env req loaded))) st = Some loaded"
    using saved(1) by simp
  have "emails_unique st'" by (rule save_loaded_unique [OF assms f saved(3)])
  with saved(4) show ?thesis by simp
qed

lemma protected_unique:
  assumes "emails_unique st" and "\<And>i. emails_unique (snd (h i st))"
  shows "emails_unique (snd (protected env now a h st))"
  using assms by (simp add: protected_def split: auth.split)









lemma findById_replace_doc:
  "findById i st = Some old \<Longrightarrow> user_id new = i \<Longrightarrow> findById i (replace_doc new st) = Some new"
  unfolding findById_def by (induction st) (auto split: if_splits)

lemma findById_replace_doc_other:
  "j \<noteq> user_id new \<Longrightarrow> findById j (replace_doc new st) = findById j st"
  unfolding findById_def by (induction st) auto

lemma length_replace_doc [simp]: "length (replace_doc new st) = length st"
  by (induction st) auto

lemma assign_basic_name: "body_name req = None \<Longrightarrow> name (assign_basic env req u) = name u"
  by (simp add: assign_basic_def Let_def split: option.split)

lemma assign_basic_email: "body_email req = None \<Longrightarrow> email (assign_basic env req u) = email u"
  by (simp add: assign_basic_def Let_def split: option.split)

lemma assign_basic_phone: "body_phone req = None \<Longrightarrow> phone (assign_basic env req u) = phone u"
  by (simp add: assign_basic_def Let_def split: option.split)

lemma assign_basic_birthdate:
  "body_birthdate req = None \<Longrightarrow> birthdate (assign_basic env req u) = birthdate u"
  by (simp add: assign_basic_def Let_def split: option.split)

lemma assign_password_fields [simp]:
  "name (assign_password env req u) = name u"
  "email (assign_password env req u) = email u"
  "phone (assign_password env req u) = phone u"
  "birthdate (assign_password env req u) = birthdate u"
  "createdAt (assign_password env req u) = createdAt u"
  by (simp_all add: assign_password_def)

lemma save_loaded_Some:
  "save_loaded ok old new st = Some st' \<Longrightarrow> st' = replace_doc new st"
  by (simp add: save_loaded_def split: if_splits)

lemma count_email_unique:
  "distinct (map email st) \<Longrightarrow> e \<in> set (map email st) \<Longrightarrow> count_email e st = 1"
  unfolding count_email_def
proof (induction st)
  case Nil
  then show ?case by simp
next
  case (Cons d ds)
  show ?case
  proof (cases "email d = e")
    case True
    with Cons.prems have "e \<notin> email ` set ds" by auto
    then have "filter (\<lambda>u. email u = e) ds = []" by (auto simp: filter_empty_conv)
    with True show ?thesis by simp
  next
    case False
    with Cons show ?thesis by auto
  qed
qed

lemmas example_defs = example_env_def alice_def bob_def findById_def findOne_email_def

lemmas token_defs = tokens_def token1_def jwt_issue_def seven_days_def table_render_def

lemmas middleware_defs = protected_def authMiddleware_def extract_token_def jwt_verify_def
  secret_def message_def Let_def

section \<open>Login\<close>



section \<open>Registration and the uniqueness of emails\<close>

text \<open>
  C4. When the collection holds a document with email \<open>e\<close>, a registration with email
  \<open>e\<close> is answered with status 400 (``User already exists'') and the collection is
  returned as it was: the number of documents with that email is the same as before, and it
  is exactly one when emails were unique.
\<close>

theorem register_duplicate_email:
  assumes "e \<in> set (map email st)" and "reg_email req = e"
  shows "register env now new_id req st =
           (\<lparr>status = 400, body = JObject [(''message'', JString ''User already exists'')]\<rparr>, st)
       \<and> count_email e (snd (register env now new_id req st)) = count_email e st
       \<and> (emails_unique st \<longrightarrow> count_email e (snd (register env now new_id req st)) = 1)"
proof -
  from assms have "findOne_email (reg_email req) st \<noteq> None"
    by (simp add: findOne_email_None)
  then have r: "register env now new_id req st =
           (\<lparr>status = 400, body = JObject [(''message'', JString ''User already exists'')]\<rparr>, st)"
    by (auto simp: register_def message_def)
  show ?thesis
    unfolding r using assms(1) by (simp add: emails_unique_def count_email_unique)
qed

theorem register_duplicate_email_witness:
  "''b@x.com'' \<in> set (map email [alice, bob]) \<and> emails_unique [alice, bob] \<and>
   register (example_env []) 10 3
     \<lparr>reg_name = ''Eve'', reg_email = ''b@x.com'', reg_password = ''pw''\<rparr> [alice, bob] =
     (\<lparr>status = 400, body = JObject [(''message'', JString ''User already exists'')]\<rparr>,
      [alice, bob]) \<and>
   count_email ''b@x.com'' (snd (register (example_env []) 10 3
     \<lparr>reg_name = ''Eve'', reg_email = ''b@x.com'', reg_password = ''pw''\<rparr> [alice, bob])) = 1"
proof -
  have h: "''b@x.com'' \<in> set (map email [alice, bob])"
    by (simp add: example_defs)
  have u: "emails_unique [alice, bob]"
    by (simp add: emails_unique_def example_defs)
  show ?thesis
    using h u register_duplicate_email [OF h, of
        "\<lparr>reg_name = ''Eve'', reg_email = ''b@x.com'', reg_password = ''pw''\<rparr>"
        "example_env []" 10 3]
    by simp
qed

text \<open>
  C5. Uniqueness of emails is an invariant of the collection: from a collection in which no
  two documents share an email, each of the five operations (register, login, get current
  user, update user, progress; the last three behind the middleware) returns a collection
  in which no two documents share an email. In particular an insert of a document whose
  email is already held is rejected, and so is the registration that would make it.
\<close>

theorem email_uniqueness_invariant:
  assumes "emails_unique st"
  shows "emails_unique (snd (register env now new_id rreq st)) \<and>
         emails_unique (snd (login env now lreq st)) \<and>
         emails_unique (snd (route_me env now authorization st)) \<and>
         emails_unique (snd (route_update env now authorization ureq st)) \<and>
         emails_unique (snd (route_progress env now authorization st)) \<and>
         (email u \<in> set (map email st) \<longrightarrow> save_new u st = None) \<and>
         (reg_email rreq \<in> set (map email st) \<longrightarrow>
            status (fst (register env now new_id rreq st)) = 400 \<and>
            snd (register env now new_id rreq st) = st)"
proof -
  have a: "emails_unique (snd (register env now new_id rreq st))"
    using assms by (rule register_unique)
  have b: "emails_unique (snd (login env now lreq st))"
    using assms by (simp add: login_store)
  have c: "emails_unique (snd (route_me env now authorization st))"
    unfolding route_me_def using assms by (rule protected_unique) (simp add: me_store assms)
  have d: "emails_unique (snd (route_update env now authorization ureq st))"
    unfolding route_update_def using assms
    by (rule protected_unique) (rule update_unique [OF assms])
  have e: "emails_unique (snd (route_progress env now authorization st))"
    unfolding route_progress_def using assms
    by (rule protected_unique) (simp add: progress_store assms)
  have f: "email u \<in> set (map email st) \<longrightarrow> save_new u st = None"
    by (simp add: save_new_def)
  have g: "reg_email rreq \<in> set (map email st) \<longrightarrow>
            status (fst (register env now new_id rreq st)) = 400 \<and>
            snd (register env now new_id rreq st) = st"
  proof
    assume "reg_email rreq \<in> set (map email st)"
    then have "findOne_email (reg_email rreq) st \<noteq> None"
      by (simp add: findOne_email_None)
    then show "status (fst (register env now new_id rreq st)) = 400 \<and>
            snd (register env now new_id rreq st) = st"
      by (auto simp: register_def message_def)
  qed
  from a b c d e f g show ?thesis by blast
qed

theorem email_uniqueness_invariant_witness:
  "emails_unique [alice, bob] \<and>
   emails_unique (snd (register (example_env tokens) 2000 3
       \<lparr>reg_name = ''Eve'', reg_email = ''e@x.com'', reg_password = ''pw''\<rparr> [alice, bob])) \<and>
   length (snd (register (example_env tokens) 2000 3
       \<lparr>reg_name = ''Eve'', reg_email = ''e@x.com'', reg_password = ''pw''\<rparr> [alice, bob])) = 3 \<and>
   emails_unique (snd (route_update (example_env tokens) 2000 (Some ''Bearer tok1'')
       \<lparr>body_name = None, body_email = Some ''b@x.com'', body_phone = None,
        body_birthdate = None, currentPassword = None, newPassword = None\<rparr> [alice, bob])) \<and>
   status (fst (route_update (example_env tokens) 2000 (Some ''Bearer tok1'')
       \<lparr>body_name = None, body_email = Some ''b@x.com'', body_phone = None,
        body_birthdate = None, currentPassword = None, newPassword = None\<rparr> [alice, bob])) = 500 \<and>
   emails_unique (snd (route_update (example_env tokens) 2000 (Some ''Bearer tok1'')
       \<lparr>body_name = None, body_email = Some ''al@x.com'', body_phone = None,
        body_birthdate = None, currentPassword = None, newPassword = None\<rparr> [alice, bob])) \<and>
   map email (snd (route_update (example_env tokens) 2000 (Some ''Bearer tok1'')
       \<lparr>body_name = None, body_email = Some ''al@x.com'', body_phone = None,
        body_birthdate = None, currentPassword = None, newPassword = None\<rparr> [alice, bob]))
     = [''al@x.com'', ''b@x.com''] \<and>
   save_new (bob\<lparr>user_id := 7\<rparr>) [alice, bob] = None"
proof -
  have h: "emails_unique [alice, bob]"
    by (simp add: emails_unique_def example_defs)
  have m: "email (bob\<lparr>user_id := 7\<rparr>) \<in> set (map email [alice, bob])"
    by simp
  have l: "length (snd (register (example_env tokens) 2000 3
       \<lparr>reg_name = ''Eve'', reg_email = ''e@x.com'', reg_password = ''pw''\<rparr> [alice, bob])) = 3"
    by (simp add: register_def save_new_def required_ok_def example_defs Let_def)
  have s: "status (fst (route_update (example_env tokens) 2000 (Some ''Bearer tok1'')
       \<lparr>body_name = None, body_email = Some ''b@x.com'', body_phone = None,
        body_birthdate = None, currentPassword = None, newPassword = None\<rparr> [alice, bob])) = 500"
    by (simp add: route_update_def update_handler_def assign_basic_def assign_password_def
        save_loaded_def modified_ok_def birthdate_cast_ok_def middleware_defs token_defs
        example_defs)
  have e: "map email (snd (route_update (example_env tokens) 2000 (Some ''Bearer tok1'')
       \<lparr>body_name = None, body_email = Some ''al@x.com'', body_phone = None,
        body_birthdate = None, currentPassword = None, newPassword = None\<rparr> [alice, bob]))
     = [''al@x.com'', ''b@x.com'']"
    by (simp add: route_update_def update_handler_def assign_basic_def assign_password_def
        save_loaded_def modified_ok_def birthdate_cast_ok_def middleware_defs token_defs
        example_defs)
  show ?thesis
    using h m l s e
      email_uniqueness_invariant [OF h, of "example_env tokens" 2000 3
        "\<lparr>reg_name = ''Eve'', reg_email = ''e@x.com'', reg_password = ''pw''\<rparr>" _
        "Some ''Bearer tok1''"
        "\<lparr>body_name = None, body_email = Some ''b@x.com'', body_phone = None,
          body_birthdate = None, currentPassword = None, newPassword = None\<rparr>"
        "bob\<lparr>user_id := 7\<rparr>"]
      email_uniqueness_invariant [OF h, of "example_env tokens" 2000 3 _ _
        "Some ''Bearer tok1''"
        "\<lparr>body_name = None, body_email = Some ''al@x.com'', body_phone = None,
          body_birthdate = None, currentPassword = None, newPassword = None\<rparr>"]
    by blast
qed

section \<open>Updating a user\<close>

text \<open>
  C8. An update of an existing user leaves that user's document in the collection with the
  same \<open>_id\<close> and \<open>createdAt\<close>; each of \<open>name\<close>, \<open>email\<close>, \<open>phone\<close>, \<open>birthdate\<close>
  that the request omits keeps its value; the password digest either keeps its value or
  both passwords were supplied, the current one verified, and the digest is the hash of
  the new one. Every other document is as before.
\<close>

theorem update_frame:
  assumes "findById userId st = Some u"
  shows "\<exists>u'. findById userId (snd (update_handler env req userId st)) = Some u' \<and>
           user_id u' = user_id u \<and> createdAt u' = createdAt u \<and>
           (body_name req = None \<longrightarrow> name u' = name u) \<and>
           (body_email req = None \<longrightarrow> email u' = email u) \<and>
           (body_phone req = None \<longrightarrow> phone u' = phone u) \<and>
           (body_birthdate req = None \<longrightarrow> birthdate u' = birthdate u) \<and>
           (password u' = password u \<or>
            (truthy (currentPassword req) \<and> truthy (newPassword req) \<and>
             bcrypt_compare env (the (currentPassword req)) (password u) \<and>
             password u' = bcrypt_hash env (the (newPassword req)))) \<and>
           (\<forall>j. j \<noteq> userId \<longrightarrow>
              findById j (snd (update_handler env req userId st)) = findById j st) \<and>
           length (snd (update_handler env req userId st)) = length st"
proof (cases rule: update_handler_cases [of userId st env req])
  case missing
  with assms show ?thesis by simp
next
  case (wrong loaded)
  with assms show ?thesis by simp
next
  case (rejected loaded)
  with assms show ?thesis by simp
next
  case (saved loaded st')
  let ?n = "assign_password env req (assign_basic env req loaded)"
  from saved(1) assms have l: "loaded = u" by simp
  from assms have i: "user_id u = userId" by (rule findById_id)
  from saved(3) have st': "st' = replace_doc ?n st" by (rule save_loaded_Some)
  have idn: "user_id ?n = userId" using l i by simp
  have f: "findById userId st' = Some ?n"
    unfolding st' using assms idn by (rule findById_replace_doc)
  have o: "\<forall>j. j \<noteq> userId \<longrightarrow> findById j st' = findById j st"
    unfolding st' using idn by (simp add: findById_replace_doc_other)
  have pw: "password ?n = password u \<or>
            (truthy (currentPassword req) \<and> truthy (newPassword req) \<and>
             bcrypt_compare env (the (currentPassword req)) (password u) \<and>
             password ?n = bcrypt_hash env (the (newPassword req)))"
    using saved(2) l by (auto simp: assign_password_def)
  have fr: "user_id ?n = user_id u" "createdAt ?n = createdAt u"
    "body_name req = None \<longrightarrow> name ?n = name u"
    "body_email req = None \<longrightarrow> email ?n = email u"
    "body_phone req = None \<longrightarrow> phone ?n = phone u"
    "body_birthdate req = None \<longrightarrow> birthdate ?n = birthdate u"
    using l by (simp_all add: assign_basic_name assign_basic_email assign_basic_phone
        assign_basic_birthdate)
  have len: "length st' = length st" unfolding st' by simp
  show ?thesis
    unfolding saved(4) snd_conv
    using f o pw fr len by - (rule exI [of _ ?n], simp)
qed

theorem update_frame_witness:
  "findById 1 [alice, bob] = Some alice \<and>
   (\<exists>u'. findById 1 (snd (update_handler (example_env [])
            \<lparr>body_name = Some ''Al'', body_email = None, body_phone = Some ''123'',
             body_birthdate = None, currentPassword = None, newPassword = None\<rparr>
            1 [alice, bob])) = Some u' \<and>
      user_id u' = user_id alice \<and> createdAt u' = createdAt alice \<and>
      email u' = email alice \<and> birthdate u' = birthdate alice \<and>
      password u' = password alice)"
proof -
  have h: "findById 1 [alice, bob] = Some alice"
    by (simp add: example_defs)
  show ?thesis
    using h update_frame [OF h, of "example_env []"
        "\<lparr>body_name = Some ''Al'', body_email = None, body_phone = Some ''123'',
          body_birthdate = None, currentPassword = None, newPassword = None\<rparr>"]
    by auto
qed






section \<open>Tokens and the middleware\<close>

text \<open>
  C6. A token issued for the claims \<open>{ userId, email }\<close> at instant \<open>t0\<close> carries exactly
  those claims and the expiry \<open>t0\<close> plus seven days; provided the serialisation of that
  token parses back to it, verification under the same key returns the token's payload at
  every instant before the expiry and fails at every instant after it.
\<close>

theorem token_issue_verify:
  assumes "jwt_parse env (jwt_render env (jwt_issue env uid em key t0))
             = Some (jwt_issue env uid em key t0)"
  shows "jwt_userId (jwt_issue env uid em key t0) = uid \<and>
         jwt_email (jwt_issue env uid em key t0) = em \<and>
         jwt_exp (jwt_issue env uid em key t0) = t0 + 7 * 24 * 60 * 60 * 1000 \<and>
         (t < t0 + 7 * 24 * 60 * 60 * 1000 \<longrightarrow>
            jwt_verify env (jwt_sign env uid em key t0) key t
              = Some (jwt_issue env uid em key t0)) \<and>
         (t > t0 + 7 * 24 * 60 * 60 * 1000 \<longrightarrow>
            jwt_verify env (jwt_sign env uid em key t0) key t = None)"
  using assms
  by (simp add: jwt_verify_def jwt_sign_def) (simp add: jwt_issue_def seven_days_def)

theorem token_issue_verify_witness:
  "jwt_parse (example_env tokens)
     (jwt_render (example_env tokens)
        (jwt_issue (example_env tokens) 1 ''a@x.com'' ''your-secret-key'' 1000))
     = Some (jwt_issue (example_env tokens) 1 ''a@x.com'' ''your-secret-key'' 1000) \<and>
   jwt_sign (example_env tokens) 1 ''a@x.com'' ''your-secret-key'' 1000 = ''tok1'' \<and>
   jwt_verify (example_env tokens)
     (jwt_sign (example_env tokens) 1 ''a@x.com'' ''your-secret-key'' 1000)
     ''your-secret-key'' 604800999
     = Some (jwt_issue (example_env tokens) 1 ''a@x.com'' ''your-secret-key'' 1000) \<and>
   jwt_verify (example_env tokens)
     (jwt_sign (example_env tokens) 1 ''a@x.com'' ''your-secret-key'' 1000)
     ''your-secret-key'' 604801001 = None"
proof -
  have h: "jwt_parse (example_env tokens)
     (jwt_render (example_env tokens)
        (jwt_issue (example_env tokens) 1 ''a@x.com'' ''your-secret-key'' 1000))
     = Some (jwt_issue (example_env tokens) 1 ''a@x.com'' ''your-secret-key'' 1000)"
    by (simp add: token_defs example_defs)
  have s: "jwt_sign (example_env tokens) 1 ''a@x.com'' ''your-secret-key'' 1000 = ''tok1''"
    by (simp add: jwt_sign_def token_defs example_defs)
  show ?thesis
    using h s token_issue_verify [OF h, of 604800999] token_issue_verify [OF h, of 604801001]
    by simp
qed

text \<open>
  C7. On a protected route, when the Authorization header is missing, or no token can be
  extracted from it, or the token fails verification, the answer is 401, the collection is
  untouched and the answer does not depend on the handler, which is therefore not run.
  Conversely the middleware passes control on only when a token was extracted and verified,
  and then the answer of the route is the handler's, run with the token's \<open>userId\<close>.
\<close>

theorem auth_gate:
  "(authorization = None \<or> \<not> truthy (extract_token authorization) \<or>
      jwt_verify env (the (extract_token authorization)) (secret env) now = None \<longrightarrow>
      status (fst (protected env now authorization handler st)) = 401 \<and>
      snd (protected env now authorization handler st) = st \<and>
      (\<forall>h'. protected env now authorization h' st
              = protected env now authorization handler st))
   \<and> (\<forall>uid. authMiddleware env now authorization = Next uid \<longrightarrow>
         truthy (extract_token authorization) \<and>
         (\<exists>decoded. jwt_verify env (the (extract_token authorization)) (secret env) now
                       = Some decoded \<and> jwt_userId decoded = uid) \<and>
         protected env now authorization handler st = handler uid st)"
proof -
  have n: "authorization = None \<Longrightarrow> \<not> truthy (extract_token authorization)"
    by (simp add: extract_token_def)
  show ?thesis
    using n
    by (auto simp: protected_def authMiddleware_def Let_def message_def
             split: option.splits)
qed

theorem auth_gate_witness:
  "protected (example_env tokens) 2000 None (me_handler (example_env tokens)) [alice, bob]
     = (\<lparr>status = 401, body = JObject [(''message'', JString ''No token provided'')]\<rparr>,
        [alice, bob]) \<and>
   extract_token (Some ''Bearer tok3'') = Some ''tok3'' \<and>
   jwt_verify (example_env tokens) ''tok3'' (secret (example_env tokens)) 2000 = None \<and>
   status (fst (protected (example_env tokens) 2000 (Some ''Bearer tok3'')
       (me_handler (example_env tokens)) [alice, bob])) = 401 \<and>
   protected (example_env tokens) 2000 (Some ''Bearer tok3'')
       (progress_handler 2000) [alice, bob]
     = protected (example_env tokens) 2000 (Some ''Bearer tok3'')
       (me_handler (example_env tokens)) [alice, bob] \<and>
   authMiddleware (example_env tokens) 2000 (Some ''Bearer tok1'') = Next 1 \<and>
   protected (example_env tokens) 2000 (Some ''Bearer tok1'')
       (me_handler (example_env tokens)) [alice, bob]
     = me_handler (example_env tokens) 1 [alice, bob]"
proof -
  have a: "protected (example_env tokens) 2000 None (me_handler (example_env tokens)) [alice, bob]
     = (\<lparr>status = 401, body = JObject [(''message'', JString ''No token provided'')]\<rparr>,
        [alice, bob])"
    by (simp add: middleware_defs)
  have b: "extract_token (Some ''Bearer tok3'') = Some ''tok3''"
    by (simp add: extract_token_def)
  have c: "jwt_verify (example_env tokens) ''tok3'' (secret (example_env tokens)) 2000 = None"
    by (simp add: jwt_verify_def secret_def token_defs example_defs)
  have d: "authMiddleware (example_env tokens) 2000 (Some ''Bearer tok1'') = Next 1"
    by (simp add: middleware_defs token_defs example_defs)
  show ?thesis
    using a b c d
      auth_gate [of "Some ''Bearer tok3''" "example_env tokens" 2000
        "me_handler (example_env tokens)" "[alice, bob]"]
      auth_gate [of "Some ''Bearer tok1''" "example_env tokens" 2000
        "me_handler (example_env tokens)" "[alice, bob]"]
    by simp
qed

section \<open>Response payloads\<close>



text \<open>
  C9, as stated, fails: two authorized requests for the progress, one at instant 2000 and
  one at instant 3000, get different bodies, since \<open>lastAssessmentDate\<close> is the instant of
  the call.
\<close>

theorem progress_constant_counterexample:
  "status (fst (route_progress (example_env tokens) 2000 (Some ''Bearer tok1'') [alice, bob])) = 200 \<and>
   status (fst (route_progress (example_env tokens) 3000 (Some ''Bearer tok1'') [alice, bob])) = 200 \<and>
   body (fst (route_progress (example_env tokens) 2000 (Some ''Bearer tok1'') [alice, bob]))
     \<noteq> body (fst (route_progress (example_env tokens) 3000 (Some ''Bearer tok1'') [alice, bob]))"
  by (simp add: route_progress_def progress_handler_def middleware_defs token_defs example_defs)

text \<open>
  C9, amended. For an authorized request the progress route answers 200 with a body that
  depends on nothing but the clock: the score, the count and the history are constants and
  \<open>lastAssessmentDate\<close> is the instant of the call. Two calls, whatever their users and
  collections, get equal bodies exactly when they are made at the same instant.
\<close>

theorem progress_payload:
  "(authMiddleware env now authorization = Next uid \<longrightarrow>
      route_progress env now authorization st =
        (\<lparr>status = 200,
          body = JObject [
            (''mentalHealthScore'', JNumber 75),
            (''assessmentsCompleted'', JNumber 3),
            (''lastAssessmentDate'', JIso now),
            (''progressHistory'', JArray [
               JObject [(''date'', JString ''2024-01-01''), (''score'', JNumber 65)],
               JObject [(''date'', JString ''2024-01-15''), (''score'', JNumber 70)],
               JObject [(''date'', JString ''2024-02-01''), (''score'', JNumber 75)]])]\<rparr>, st))
   \<and> ((body (fst (progress_handler t1 u1 s1)) = body (fst (progress_handler t2 u2 s2)))
        = (t1 = t2))"
  by (simp add: route_progress_def protected_def progress_handler_def)

theorem progress_payload_witness:
  "authMiddleware (example_env tokens) 2000 (Some ''Bearer tok1'') = Next 1 \<and>
   route_progress (example_env tokens) 2000 (Some ''Bearer tok1'') [alice, bob] =
        (\<lparr>status = 200,
          body = JObject [
            (''mentalHealthScore'', JNumber 75),
            (''assessmentsCompleted'', JNumber 3),
            (''lastAssessmentDate'', JIso 2000),
            (''progressHistory'', JArray [
               JObject [(''date'', JString ''2024-01-01''), (''score'', JNumber 65)],
               JObject [(''date'', JString ''2024-01-15''), (''score'', JNumber 70)],
               JObject [(''date'', JString ''2024-02-01''), (''score'', JNumber 75)]])]\<rparr>,
         [alice, bob]) \<and>
   body (fst (progress_handler 2000 1 [alice])) = body (fst (progress_handler 2000 2 [bob]))"
proof -
  have d: "authMiddleware (example_env tokens) 2000 (Some ''Bearer tok1'') = Next 1"
    by (simp add: middleware_defs token_defs example_defs)
  show ?thesis
    using d progress_payload [of "example_env tokens" 2000 "Some ''Bearer tok1''" 1
        "[alice, bob]" 2000 1 "[alice]" 2000 2 "[bob]"]
    by simp
qed

end
